theory Spec2Isabelle
  imports Complex_Main
begin

section \<open>Python primitives used by \<open>dc_display_map.py\<close>\<close>

text \<open>
  Numbers are modelled as mathematical reals and integers: a Python \<open>float\<close> is read as
  the real it denotes, so rounding, NaN and infinities are outside the model.  Every
  \<open>raise\<close> of the module and of the library calls it makes is a value of \<open>error\<close>.
\<close>

datatype error =
    AssertionError
  | ValueError string
  | KeyError string
  | ArangeError
  | Exception string

text \<open>
  \<open>math.log(x)\<close> raises \<open>ValueError: math domain error\<close> unless \<open>x\<close> is positive.
  (HOL's \<open>ln\<close> is total, with \<open>ln (- x) = ln x\<close>, so the guard is written out.)
\<close>

definition math_log :: "real \<Rightarrow> error + real" where
  "math_log x = (if x \<le> 0 then Inl (ValueError ''math domain error'') else Inr (ln x))"

text \<open>\<open>int(x)\<close> on a float drops the fractional part: it truncates toward zero.\<close>

definition py_int :: "real \<Rightarrow> int" where
  "py_int x = (if 0 \<le> x then \<lfloor>x\<rfloor> else \<lceil>x\<rceil>)"

section \<open>The zoom estimator\<close>

text \<open>
  \<^verbatim>\<open>
  def _degree_to_zoom_level(l1, l2, margin = 0.0):
      degree = abs(l1 - l2) * (1 + margin)
      zoom_level_int = 0
      if degree != 0:
          zoom_level_float = math.log(360/degree)/math.log(2)
          zoom_level_int = int(zoom_level_float)
      else:
          zoom_level_int = 18
      return zoom_level_int
  \<close>
  (An Isabelle name cannot start with an underscore, so the leading one is dropped.)
\<close>

definition degree_to_zoom_level :: "real \<Rightarrow> real \<Rightarrow> real \<Rightarrow> error + int" where
  "degree_to_zoom_level l1 l2 margin =
     (let degree = \<bar>l1 - l2\<bar> * (1 + margin) in
      if degree \<noteq> 0 then
        (case math_log (360 / degree) of
           Inl e \<Rightarrow> Inl e
         | Inr num \<Rightarrow>
             (case math_log 2 of
                Inl e \<Rightarrow> Inl e
              | Inr den \<Rightarrow> Inr (py_int (num / den))))
      else Inr 18)"

text \<open>
  The specification's words for the same quantities: the span of a pair of bounds under a
  margin, and truncation toward zero as "the integer part, with the sign kept".
\<close>

definition spec_span :: "real \<Rightarrow> real \<Rightarrow> real \<Rightarrow> real" where
  "spec_span low high margin = \<bar>high - low\<bar> * (1 + margin)"


section \<open>The fixed palette\<close>

text \<open>\<open>str(n)\<close> on an integer: its decimal digits, with a minus sign when negative.\<close>

definition digit_char :: "nat \<Rightarrow> char" where
  "digit_char d = ''0123456789'' ! d"

fun str_nat :: "nat \<Rightarrow> string" where
  "str_nat n = (if n < 10 then [digit_char n] else str_nat (n div 10) @ [digit_char (n mod 10)])"

definition py_str :: "int \<Rightarrow> string" where
  "py_str n = (if n < 0 then ''-'' @ str_nat (nat (- n)) else str_nat (nat n))"

text \<open>
  \<open>xs[:n]\<close>: the first \<open>n\<close> elements, a negative \<open>n\<close> counting back from the end
  (and clamped at the empty list).
\<close>

definition py_slice_to :: "'a list \<Rightarrow> int \<Rightarrow> 'a list" where
  "py_slice_to xs n =
     (if 0 \<le> n then take (nat n) xs else take (nat (int (length xs) + n)) xs)"

text \<open>The list \<open>colors\<close> of \<open>generate_n_visually_distinct_colors\<close>, in the source's order.\<close>

definition colors :: "string list" where
  "colors =
     [''#000000'', ''#FFFF00'', ''#1CE6FF'', ''#FF34FF'', ''#FF4A46'', ''#008941'', ''#006FA6'', ''#A30059'',
      ''#FFDBE5'', ''#7A4900'', ''#0000A6'', ''#63FFAC'', ''#B79762'', ''#004D43'', ''#8FB0FF'', ''#997D87'',
      ''#5A0007'', ''#809693'', ''#FEFFE6'', ''#1B4400'', ''#4FC601'', ''#3B5DFF'', ''#4A3B53'', ''#FF2F80'',
      ''#61615A'', ''#BA0900'', ''#6B7900'', ''#00C2A0'', ''#FFAA92'', ''#FF90C9'', ''#B903AA'', ''#D16100'',
      ''#DDEFFF'', ''#000035'', ''#7B4F4B'', ''#A1C299'', ''#300018'', ''#0AA6D8'', ''#013349'', ''#00846F'',
      ''#372101'', ''#FFB500'', ''#C2FFED'', ''#A079BF'', ''#CC0744'', ''#C0B9B2'', ''#C2FF99'', ''#001E09'',
      ''#00489C'', ''#6F0062'', ''#0CBD66'', ''#EEC3FF'', ''#456D75'', ''#B77B68'', ''#7A87A1'', ''#788D66'',
      ''#885578'', ''#FAD09F'', ''#FF8A9A'', ''#D157A0'', ''#BEC459'', ''#456648'', ''#0086ED'', ''#886F4C'',
      ''#34362D'', ''#B4A8BD'', ''#00A6AA'', ''#452C2C'', ''#636375'', ''#A3C8C9'', ''#FF913F'', ''#938A81'',
      ''#575329'', ''#00FECF'', ''#B05B6F'', ''#8CD0FF'', ''#3B9700'', ''#04F757'', ''#C8A1A1'', ''#1E6E00'',
      ''#7900D7'', ''#A77500'', ''#6367A9'', ''#A05837'', ''#6B002C'', ''#772600'', ''#D790FF'', ''#9B9700'',
      ''#549E79'', ''#FFF69F'', ''#201625'', ''#72418F'', ''#BC23FF'', ''#99ADC0'', ''#3A2465'', ''#922329'',
      ''#5B4534'', ''#FDE8DC'', ''#404E55'', ''#0089A3'', ''#CB7E98'', ''#A4E804'', ''#324E72'', ''#6A3A4C'',
      ''#83AB58'', ''#001C1E'', ''#D1F7CE'', ''#004B28'', ''#C8D0F6'', ''#A3A489'', ''#806C66'', ''#222800'',
      ''#BF5650'', ''#E83000'', ''#66796D'', ''#DA007C'', ''#FF1A59'', ''#8ADBB4'', ''#1E0200'', ''#5B4E51'',
      ''#C895C5'', ''#320033'', ''#FF6832'', ''#66E1D3'', ''#CFCDAC'', ''#D0AC94'', ''#7ED379'', ''#012C58'']"

text \<open>
  \<^verbatim>\<open>
  def generate_n_visually_distinct_colors(n: int) -> List[str]:
      colors = [...]
      if n > len(colors):
          raise Exception("Can not generate more than {} distinct colors.".format(str(len(colors))))
      return colors[:n]
  \<close>
\<close>

definition generate_n_visually_distinct_colors :: "int \<Rightarrow> error + string list" where
  "generate_n_visually_distinct_colors n =
     (if n > int (length colors) then
        Inl (Exception (''Can not generate more than '' @ py_str (int (length colors))
                        @ '' distinct colors.''))
      else Inr (py_slice_to colors n))"

section \<open>The map widget\<close>

text \<open>
  The objects of the \<open>folium\<close> library that the module builds, as plain data: a map holds
  its constructor arguments and the children added to it, in the order they were added.
  A keyword argument the module does not pass is \<open>None\<close> (the library's default).
\<close>

record tile_layer =
  tiles :: string
  attr :: string
  layer_name :: "string option"
  subdomains :: "string option"
  min_zoom :: "int option"
  max_zoom :: "int option"
  layer_opacity :: "real option"

datatype element =
    FeatureGroup string bool "tile_layer list"
  | PolyLine "(real \<times> real) list" string real
  | CircleMarker "real \<times> real" int string string bool string
  | LatLngPopup

text \<open>
  \<open>FeatureGroup name overlay children\<close>; \<open>PolyLine locations color opacity\<close>;
  \<open>CircleMarker location radius popup color fill fill_color\<close>.
\<close>

record folium_map =
  map_tiles :: "string option"
  location :: "real \<times> real"
  zoom_start :: int
  children :: "element list"

definition add_child :: "folium_map \<Rightarrow> element \<Rightarrow> folium_map" where
  "add_child m c = m\<lparr>children := children m @ [c]\<rparr>"

text \<open>The three tile layers and the feature group that both composers put on a new map.\<close>

definition esri_attr :: string where
  "esri_attr = ''Tiles &copy; Esri &mdash; Source: Esri, i-cubed, ''
     @ ''USDA, USGS, AEX, GeoEye, Getmapping, Aerogrid, ''
     @ ''IGN, IGP, UPR-EGP, and the GIS User Community''"

definition stamen_attr :: string where
  \<open>stamen_attr = ''Map tiles by <a href="http://stamen.com">''
     @ ''Stamen Design</a>, <a href="http://''
     @ ''creativecommons.org/licenses/by/3.0">CC BY 3.0''
     @ ''</a> &mdash; Map data &copy; <a href="https://''
     @ ''www.openstreetmap.org/copyright">''
     @ ''OpenStreetMap</a> contributors''\<close>

definition esri_imagery :: tile_layer where
  "esri_imagery =
     \<lparr>tiles = ''https://server.arcgisonline.com/ArcGIS/rest/''
              @ ''services/World_Imagery/MapServer/''
              @ ''tile/{z}/{y}/{x}'',
      attr = esri_attr,
      layer_name = Some ''ESRI World Imagery'',
      subdomains = None, min_zoom = None, max_zoom = None, layer_opacity = None\<rparr>"

definition toner_labels :: tile_layer where
  "toner_labels =
     \<lparr>tiles = ''https://stamen-tiles-{s}.a.ssl.fastly.net/''
              @ ''toner-labels/{z}/{x}/{y}{r}.png'',
      attr = stamen_attr,
      layer_name = None,
      subdomains = Some ''abcd'', min_zoom = Some 0, max_zoom = Some 20,
      layer_opacity = None\<rparr>"

definition toner_lines :: tile_layer where
  "toner_lines =
     \<lparr>tiles = ''https://stamen-tiles-{s}.a.ssl.fastly.net/''
              @ ''toner-lines/{z}/{x}/{y}{r}.png'',
      attr = stamen_attr,
      layer_name = None,
      subdomains = Some ''abcd'', min_zoom = Some 0, max_zoom = Some 20,
      layer_opacity = Some (4 / 10)\<rparr>"

definition feat_group :: element where
  "feat_group = FeatureGroup ''ESRI World Imagery'' False [esri_imagery, toner_labels, toner_lines]"

section \<open>The bounding-box map composer\<close>

text \<open>
  \<open>np.mean\<close> of a 2-tuple, and \<open>np.arange(start, stop, step)\<close>: the values
  \<open>start + i * step\<close> for \<open>i\<close> below \<open>ceil((stop - start) / step)\<close>, none when that
  count is not positive.  With a zero step numpy cannot compute the length and raises
  (a \<open>ZeroDivisionError\<close> or a \<open>ValueError\<close>, by argument type): \<open>ArangeError\<close> here.
\<close>

definition np_mean :: "real \<times> real \<Rightarrow> real" where
  "np_mean p = (fst p + snd p) / 2"

definition np_arange :: "real \<Rightarrow> real \<Rightarrow> real \<Rightarrow> error + real list" where
  "np_arange start stop step =
     (if step = 0 then Inl ArangeError
      else Inr (map (\<lambda>i. start + real i * step) [0 ..< nat \<lceil>(stop - start) / step\<rceil>]))"

text \<open>
  The resolution grid of \<open>display_map\<close> (lines 106 to 119), as the list of poly-lines it
  adds to the map: the vertical segments first, then the horizontal ones.
  \<^verbatim>\<open>
  if resolution is not None:
      res_lat, res_lon = resolution
      lats = np.arange(*latitude, abs(res_lat))
      lons = np.arange(*longitude, abs(res_lon))
      vertical_grid   = map(lambda x :([x[0][0],x[1]],[x[0][1],x[1]]),itertools.product([latitude],lons))
      horizontal_grid = map(lambda x :([x[1],x[0][0]],[x[1],x[0][1]]),itertools.product([longitude],lats))
      for segment in vertical_grid:
          folium.features.PolyLine(segment, color = 'white', opacity = 0.3).add_to(map_hybrid)
      for segment in horizontal_grid:
          folium.features.PolyLine(segment, color = 'white', opacity = 0.3).add_to(map_hybrid)
  \<close>
\<close>

definition vertical_grid :: "real \<times> real \<Rightarrow> real list \<Rightarrow> (real \<times> real) list list" where
  "vertical_grid latitude lons =
     map (\<lambda>x. [(fst (fst x), snd x), (snd (fst x), snd x)]) (List.product [latitude] lons)"

definition horizontal_grid :: "real \<times> real \<Rightarrow> real list \<Rightarrow> (real \<times> real) list list" where
  "horizontal_grid longitude lats =
     map (\<lambda>x. [(snd x, fst (fst x)), (snd x, snd (fst x))]) (List.product [longitude] lats)"

definition resolution_grid ::
  "real \<times> real \<Rightarrow> real \<times> real \<Rightarrow> (real \<times> real) option \<Rightarrow> error + element list" where
  "resolution_grid latitude longitude resolution =
     (case resolution of
        None \<Rightarrow> Inr []
      | Some (res_lat, res_lon) \<Rightarrow>
          (case np_arange (fst latitude) (snd latitude) \<bar>res_lat\<bar> of
             Inl e \<Rightarrow> Inl e
           | Inr lats \<Rightarrow>
               (case np_arange (fst longitude) (snd longitude) \<bar>res_lon\<bar> of
                  Inl e \<Rightarrow> Inl e
                | Inr lons \<Rightarrow>
                    Inr (map (\<lambda>segment. PolyLine segment ''white'' (3 / 10))
                           (vertical_grid latitude lons)
                         @ map (\<lambda>segment. PolyLine segment ''white'' (3 / 10))
                             (horizontal_grid longitude lats)))))"

text \<open>
  \<open>display_map(latitude = None, longitude = None, resolution = None)\<close>.  The two
  \<open>assert\<close> statements come first; then the zoom level from both axes with margin
  \<open>-0.5\<close> and bias 0, the centre, the new map with its feature group, the optional grid,
  the red outline of the bounds and the coordinate popup.
\<close>

definition line_segments :: "real \<times> real \<Rightarrow> real \<times> real \<Rightarrow> (real \<times> real) list" where
  "line_segments latitude longitude =
     [(fst latitude, fst longitude),
      (fst latitude, snd longitude),
      (snd latitude, snd longitude),
      (snd latitude, fst longitude),
      (fst latitude, fst longitude)]"

definition display_map ::
  "(real \<times> real) option \<Rightarrow> (real \<times> real) option \<Rightarrow> (real \<times> real) option
   \<Rightarrow> error + folium_map" where
  "display_map latitude_arg longitude_arg resolution =
     (case latitude_arg of
        None \<Rightarrow> Inl AssertionError
      | Some latitude \<Rightarrow>
     (case longitude_arg of
        None \<Rightarrow> Inl AssertionError
      | Some longitude \<Rightarrow>
     (let margin = - (5 / 10); zoom_bias = 0 in
      case degree_to_zoom_level (fst latitude) (snd latitude) margin of
        Inl e \<Rightarrow> Inl e
      | Inr lat_zoom \<Rightarrow>
     (case degree_to_zoom_level (fst longitude) (snd longitude) margin of
        Inl e \<Rightarrow> Inl e
      | Inr lon_zoom \<Rightarrow>
     (let lat_zoom_level = lat_zoom + zoom_bias;
          lon_zoom_level = lon_zoom + zoom_bias;
          zoom_level = min lat_zoom_level lon_zoom_level;
          center = (np_mean latitude, np_mean longitude);
          map_hybrid = add_child
            \<lparr>map_tiles = None, location = center, zoom_start = zoom_level, children = []\<rparr>
            feat_group
      in case resolution_grid latitude longitude resolution of
           Inl e \<Rightarrow> Inl e
         | Inr grid \<Rightarrow>
             Inr (add_child
                   (add_child (fold (\<lambda>line m. add_child m line) grid map_hybrid)
                      (PolyLine (line_segments latitude longitude) ''red'' (8 / 10)))
                   LatLngPopup))))))"

section \<open>The grouped-point map composer\<close>








text \<open>\<open>labels.index(v)\<close>: the first position of \<open>v\<close>, a \<open>ValueError\<close> when there is none.\<close>

fun list_index :: "'a list \<Rightarrow> 'a \<Rightarrow> nat option" where
  "list_index [] v = None"
| "list_index (x # xs) v = (if x = v then Some 0 else map_option Suc (list_index xs v))"

text \<open>
  \<open>{_label: _color for _label, _color in zip(labels, pallete)}\<close>: the entries are stored
  one after the other, a later one replacing an earlier one with the same key.
\<close>

definition label_colors :: "string list \<Rightarrow> string list \<Rightarrow> (string \<rightharpoonup> string)" where
  "label_colors labels pallete =
     fold (\<lambda>(label, color) d. d(label \<mapsto> color)) (zip labels pallete) Map.empty"






section \<open>Facts about the primitives\<close>


lemma math_log_two: "math_log 2 = Inr (ln 2)"
  by (simp add: math_log_def)

lemma degree_span: "\<bar>l1 - l2\<bar> * (1 + margin) = spec_span l1 l2 margin"
  by (simp add: spec_span_def abs_minus_commute)

lemma zoom_zero_span:
  "spec_span l1 l2 margin = 0 \<Longrightarrow> degree_to_zoom_level l1 l2 margin = Inr 18"
  by (simp add: degree_to_zoom_level_def degree_span)

lemma zoom_pos_span:
  "0 < spec_span l1 l2 margin \<Longrightarrow>
   degree_to_zoom_level l1 l2 margin = Inr (py_int (log 2 (360 / spec_span l1 l2 margin)))"
  by (simp add: degree_to_zoom_level_def degree_span math_log_def log_def)








section \<open>Claims about the zoom estimator\<close>







text \<open>
  C9.  Swapping the two bounds does not change what the estimator does: the same zoom
  level, or the same error, under every margin.
\<close>

theorem zoom_level_swap:
  "degree_to_zoom_level low high margin = degree_to_zoom_level high low margin"
  by (simp add: degree_to_zoom_level_def abs_minus_commute)

section \<open>Facts about the palette\<close>

lemma length_colors: "length colors = 128"
  by (simp add: colors_def)

lemma py_str_128: "py_str 128 = ''128''"
  by (simp add: py_str_def digit_char_def)

lemma generate_fails:
  "128 < n \<Longrightarrow>
   generate_n_visually_distinct_colors n =
     Inl (Exception ''Can not generate more than 128 distinct colors.'')"
  by (simp add: generate_n_visually_distinct_colors_def length_colors py_str_128)

lemma generate_returns:
  "n \<le> 128 \<Longrightarrow> generate_n_visually_distinct_colors n = Inr (py_slice_to colors n)"
  by (simp add: generate_n_visually_distinct_colors_def length_colors)

lemma generate_fails_iff:
  "(\<exists>e. generate_n_visually_distinct_colors n = Inl e) \<longleftrightarrow> 128 < n"
  using generate_fails [of n] generate_returns [of n] by (cases "128 < n") auto

section \<open>Claims about the palette\<close>

text \<open>
  C3.  For a non-negative \<open>n\<close> the generator fails, with its one exception, if and only if
  \<open>n > 128\<close>; otherwise it returns the first \<open>n\<close> entries of the 128-entry palette in
  the palette's order.  So \<open>n = 0\<close> gives the empty list, \<open>n = 128\<close> the whole palette,
  and \<open>n = 129\<close> fails.
\<close>

theorem generate_prefix_or_fail:
  "0 \<le> n \<Longrightarrow>
     ((\<exists>e. generate_n_visually_distinct_colors n = Inl e) \<longleftrightarrow> 128 < n)
   \<and> (generate_n_visually_distinct_colors n
          = Inl (Exception ''Can not generate more than 128 distinct colors.'') \<longleftrightarrow> 128 < n)
   \<and> (n \<le> 128 \<longrightarrow>
          generate_n_visually_distinct_colors n = Inr (take (nat n) colors)
        \<and> length (take (nat n) colors) = nat n)
   \<and> length colors = 128
   \<and> generate_n_visually_distinct_colors 0 = Inr []
   \<and> generate_n_visually_distinct_colors 128 = Inr colors
   \<and> generate_n_visually_distinct_colors 129
        = Inl (Exception ''Can not generate more than 128 distinct colors.'')"
proof -
  assume n: "0 \<le> n"
  have a: "(\<exists>e. generate_n_visually_distinct_colors n = Inl e) \<longleftrightarrow> 128 < n"
    by (rule generate_fails_iff)
  have b: "generate_n_visually_distinct_colors n
      = Inl (Exception ''Can not generate more than 128 distinct colors.'') \<longleftrightarrow> 128 < n"
    using generate_fails [of n] generate_returns [of n] by (cases "128 < n") auto
  have c: "n \<le> 128 \<longrightarrow>
      generate_n_visually_distinct_colors n = Inr (take (nat n) colors)
      \<and> length (take (nat n) colors) = nat n"
    using n by (simp add: generate_returns py_slice_to_def length_colors)
  have d: "generate_n_visually_distinct_colors 0 = Inr []"
    by (simp add: generate_returns py_slice_to_def)
  have e: "generate_n_visually_distinct_colors 128 = Inr colors"
    by (simp add: generate_returns py_slice_to_def length_colors)
  have f: "generate_n_visually_distinct_colors 129
      = Inl (Exception ''Can not generate more than 128 distinct colors.'')"
    by (simp add: generate_fails)
  show ?thesis
    using a b c d e f length_colors by blast
qed

theorem generate_prefix_or_fail_witness:
  "(0::int) \<le> 3
   \<and> generate_n_visually_distinct_colors 3 = Inr [''#000000'', ''#FFFF00'', ''#1CE6FF'']
   \<and> (0::int) \<le> 200
   \<and> generate_n_visually_distinct_colors 200
        = Inl (Exception ''Can not generate more than 128 distinct colors.'')"
proof -
  have t: "take (nat 3) colors = [''#000000'', ''#FFFF00'', ''#1CE6FF'']"
    by (simp add: colors_def)
  have "generate_n_visually_distinct_colors 3 = Inr [''#000000'', ''#FFFF00'', ''#1CE6FF'']"
    using generate_prefix_or_fail [of 3] t by simp
  moreover have "generate_n_visually_distinct_colors 200
        = Inl (Exception ''Can not generate more than 128 distinct colors.'')"
    using generate_prefix_or_fail [of 200] by simp
  ultimately show ?thesis by simp
qed

text \<open>
  C5 (as amended).  Whenever the generator fails because \<open>n\<close> exceeds 128, the detail of
  the failure is the message naming the maximum count 128, the same for every such \<open>n\<close>;
  the requested count is not part of it.
\<close>

theorem generate_failure_detail:
  "128 < n \<Longrightarrow>
   generate_n_visually_distinct_colors n
     = Inl (Exception (''Can not generate more than '' @ py_str 128 @ '' distinct colors.''))
   \<and> py_str 128 = ''128''"
  by (simp add: generate_fails py_str_128)

theorem generate_failure_detail_witness:
  "(128::int) < 129
   \<and> generate_n_visually_distinct_colors 129
     = Inl (Exception ''Can not generate more than 128 distinct colors.'')"
  using generate_failure_detail [of 129] by simp

text \<open>
  C5 as stated fails: requests for 129 and for 1000 colours fail with one and the same
  detail, so the detail does not carry the requested count.
\<close>

theorem generate_failure_detail_counterexample:
  "generate_n_visually_distinct_colors 129 = generate_n_visually_distinct_colors 1000
   \<and> generate_n_visually_distinct_colors 129
       = Inl (Exception ''Can not generate more than 128 distinct colors.'')"
  by (simp add: generate_fails)

text \<open>
  C10 (as amended).  A negative \<open>n\<close> from \<open>-128\<close> up does not fail: the slice \<open>colors[:n]\<close>
  counts back from the end, and the generator returns the first \<open>128 + n\<close> entries of
  the palette.  That is a shortened, non-empty palette for \<open>-128 < n < 0\<close>, and the empty
  list at \<open>n = -128\<close>.  For every integer \<open>n\<close>, only \<open>n > 128\<close> raises.
\<close>

theorem generate_negative_count:
  "(- 128 \<le> n \<and> n < 0 \<longrightarrow>
      generate_n_visually_distinct_colors n = Inr (take (nat (128 + n)) colors)
    \<and> int (length (take (nat (128 + n)) colors)) = 128 + n)
   \<and> (- 128 < n \<and> n < 0 \<longrightarrow>
      (\<exists>cs. generate_n_visually_distinct_colors n = Inr cs \<and> cs \<noteq> []
            \<and> length cs < length colors))
   \<and> generate_n_visually_distinct_colors (- 128) = Inr []
   \<and> ((\<exists>e. generate_n_visually_distinct_colors n = Inl e) \<longleftrightarrow> 128 < n)"
proof -
  have a: "generate_n_visually_distinct_colors n = Inr (take (nat (128 + n)) colors)
      \<and> int (length (take (nat (128 + n)) colors)) = 128 + n"
    if "- 128 \<le> n" "n < 0"
    using that by (simp add: generate_returns py_slice_to_def length_colors)
  have b: "\<exists>cs. generate_n_visually_distinct_colors n = Inr cs \<and> cs \<noteq> []
      \<and> length cs < length colors"
    if "- 128 < n" "n < 0"
  proof -
    have "length (take (nat (128 + n)) colors) = nat (128 + n)"
      using that by (simp add: length_colors)
    then have "take (nat (128 + n)) colors \<noteq> []"
      using that by auto
    moreover have "length (take (nat (128 + n)) colors) < length colors"
      using that by (simp add: length_colors)
    ultimately show ?thesis
      using a that by simp
  qed
  have c: "generate_n_visually_distinct_colors (- 128) = Inr []"
    by (simp add: generate_returns py_slice_to_def length_colors)
  show ?thesis
    using a b c generate_fails_iff [of n] by blast
qed

theorem generate_negative_count_witness:
  "(- 128 < (- 125 :: int) \<and> (- 125 :: int) < 0)
   \<and> generate_n_visually_distinct_colors (- 125) = Inr [''#000000'', ''#FFFF00'', ''#1CE6FF'']"
proof -
  have t: "take (nat (128 + - 125)) colors = [''#000000'', ''#FFFF00'', ''#1CE6FF'']"
    by (simp add: colors_def)
  show ?thesis
    using generate_negative_count [of "- 125"] t by simp
qed

text \<open>
  C10 as stated fails at \<open>n = -128\<close>, inside the stated range: the caller receives the
  empty list, not a shortened palette.
\<close>

theorem generate_negative_count_counterexample:
  "- 128 \<le> (- 128 :: int) \<and> (- 128 :: int) < 0
   \<and> generate_n_visually_distinct_colors (- 128) = Inr []"
  by (simp add: generate_returns py_slice_to_def length_colors)

section \<open>Facts about the bounding-box composer\<close>

lemma py_int_log2_between:
  assumes "2 ^ n \<le> x" and "x < 2 ^ Suc n"
  shows "py_int (log 2 x) = int n"
proof -
  have x: "0 < x"
    using assms(1) by (smt (verit) zero_less_power)
  have lo: "real n \<le> log 2 x"
    using assms(1) x le_log_iff [of 2 x "real n"] by (simp add: powr_realpow)
  have p: "2 powr real (Suc n) = (2::real) ^ Suc n"
    by (rule powr_realpow) simp
  have hi: "log 2 x < real (Suc n)"
    using assms(2) x log_less_iff [of 2 x "real (Suc n)"] unfolding p by simp
  have "\<lfloor>log 2 x\<rfloor> = int n"
    using lo hi by (simp add: floor_eq_iff)
  moreover have "0 \<le> log 2 x" using lo by linarith
  ultimately show ?thesis by (simp add: py_int_def)
qed

lemma zoom_half_margin:
  "degree_to_zoom_level a b (- (1 / 2))
     = Inr (if a = b then 18 else py_int (log 2 (720 / \<bar>b - a\<bar>)))"
proof (cases "a = b")
  case True
  then show ?thesis by (simp add: zoom_zero_span spec_span_def)
next
  case False
  then have "0 < spec_span a b (- (1 / 2))" by (simp add: spec_span_def)
  then show ?thesis
    using False zoom_pos_span [of a b "- (1 / 2)"] by (simp add: spec_span_def)
qed

lemma fold_add_child:
  "fold (\<lambda>line m. add_child m line) grid m = m\<lparr>children := children m @ grid\<rparr>"
  by (induction grid arbitrary: m) (simp_all add: add_child_def)

lemma display_map_Some:
  assumes "degree_to_zoom_level (fst latitude) (snd latitude) (- (1 / 2)) = Inr lat_zoom"
    and "degree_to_zoom_level (fst longitude) (snd longitude) (- (1 / 2)) = Inr lon_zoom"
  shows "display_map (Some latitude) (Some longitude) resolution =
     (case resolution_grid latitude longitude resolution of
        Inl e \<Rightarrow> Inl e
      | Inr grid \<Rightarrow>
          Inr \<lparr>map_tiles = None,
               location = (np_mean latitude, np_mean longitude),
               zoom_start = min lat_zoom lon_zoom,
               children = feat_group # grid
                 @ [PolyLine (line_segments latitude longitude) ''red'' (8 / 10), LatLngPopup]\<rparr>)"
proof -
  have "display_map (Some latitude) (Some longitude) resolution =
     (case resolution_grid latitude longitude resolution of
        Inl e \<Rightarrow> Inl e
      | Inr grid \<Rightarrow>
          Inr (add_child
                (add_child
                   ((add_child
                       \<lparr>map_tiles = None, location = (np_mean latitude, np_mean longitude),
                        zoom_start = min lat_zoom lon_zoom, children = []\<rparr>
                       feat_group)
                    \<lparr>children := children (add_child
                       \<lparr>map_tiles = None, location = (np_mean latitude, np_mean longitude),
                        zoom_start = min lat_zoom lon_zoom, children = []\<rparr>
                       feat_group) @ grid\<rparr>)
                   (PolyLine (line_segments latitude longitude) ''red'' (8 / 10)))
                LatLngPopup))"
    using assms by (simp add: display_map_def Let_def fold_add_child split: sum.splits)
  then show ?thesis
    by (simp add: add_child_def split: sum.splits)
qed

lemma np_arange_Inl: "np_arange a b s = Inl e \<longleftrightarrow> s = 0 \<and> e = ArangeError"
  by (auto simp: np_arange_def)

lemma resolution_grid_Inl:
  "resolution_grid latitude longitude resolution = Inl e \<longleftrightarrow>
     e = ArangeError \<and> (\<exists>r. resolution = Some r \<and> (fst r = 0 \<or> snd r = 0))"
  by (auto simp: resolution_grid_def np_arange_def split: option.splits prod.splits sum.splits)


lemma resolution_grid_Some:
  "res_lat \<noteq> 0 \<Longrightarrow> res_lon \<noteq> 0 \<Longrightarrow>
   resolution_grid (lat0, lat1) (lon0, lon1) (Some (res_lat, res_lon)) =
     Inr (map (\<lambda>j. PolyLine [(lat0, lon0 + real j * \<bar>res_lon\<bar>), (lat1, lon0 + real j * \<bar>res_lon\<bar>)]
                   ''white'' (3 / 10))
            [0 ..< nat \<lceil>(lon1 - lon0) / \<bar>res_lon\<bar>\<rceil>]
          @ map (\<lambda>i. PolyLine [(lat0 + real i * \<bar>res_lat\<bar>, lon0), (lat0 + real i * \<bar>res_lat\<bar>, lon1)]
                     ''white'' (3 / 10))
              [0 ..< nat \<lceil>(lat1 - lat0) / \<bar>res_lat\<bar>\<rceil>])"
  by (simp add: resolution_grid_def np_arange_def vertical_grid_def horizontal_grid_def
      comp_def)

lemma upt_3: "[0 ..< 3] = [0, 1, 2 :: nat]"
  by (simp add: eval_nat_numeral)

lemma arange_example: "np_arange 0 1 (4 / 10) = Inr [0, 4 / 10, 8 / 10]"
  by (simp add: np_arange_def upt_3)

lemma zoom_unit: "degree_to_zoom_level 0 1 (- (1 / 2)) = Inr 9"
proof -
  have "py_int (log 2 720) = int 9"
    by (rule py_int_log2_between) simp_all
  then show ?thesis
    by (simp add: zoom_half_margin)
qed



section \<open>Claims about the bounding-box composer\<close>



text \<open>
  C6.  When the latitude or the longitude argument is absent the call fails with the
  assertion error: the result is the error alone, and holds no map.  That error arises in
  no other way.
\<close>

theorem display_map_missing_argument:
  "display_map None longitude resolution = Inl AssertionError
   \<and> display_map latitude None resolution = Inl AssertionError
   \<and> (display_map latitude longitude resolution = Inl AssertionError
        \<longleftrightarrow> latitude = None \<or> longitude = None)"
proof -
  have a: "display_map None longitude resolution = Inl AssertionError"
    by (simp add: display_map_def)
  have b: "display_map latitude None resolution = Inl AssertionError"
    by (simp add: display_map_def split: option.splits)
  have c: "display_map (Some lat) (Some lon) resolution \<noteq> Inl AssertionError" for lat lon
  proof -
    obtain za where za: "degree_to_zoom_level (fst lat) (snd lat) (- (1 / 2)) = Inr za"
      using zoom_half_margin [of "fst lat" "snd lat"] by blast
    obtain zo where zo: "degree_to_zoom_level (fst lon) (snd lon) (- (1 / 2)) = Inr zo"
      using zoom_half_margin [of "fst lon" "snd lon"] by blast
    show ?thesis
      using display_map_Some [OF za zo, of resolution]
        resolution_grid_Inl [of lat lon resolution]
      by (auto split: sum.splits)
  qed
  have "display_map latitude longitude resolution = Inl AssertionError
        \<longleftrightarrow> latitude = None \<or> longitude = None"
    using a b c by (cases latitude; cases longitude) auto
  then show ?thesis
    using a b by blast
qed

theorem display_map_missing_argument_witness:
  "display_map None (Some (0, 1)) None = Inl AssertionError
   \<and> display_map (Some (0, 1)) None (Some (1, 1)) = Inl AssertionError
   \<and> display_map (Some (0, 1)) (Some (0, 1)) None \<noteq> Inl AssertionError"
  using display_map_missing_argument [of "Some (0, 1)" None "None"]
    display_map_missing_argument [of None "Some (1, 1)" "Some (0, 1)"]
    display_map_missing_argument [of None None "Some (0, 1)"]
    display_map_missing_argument [of "Some (0, 1)" None "Some (0, 1)"]
  by simp

text \<open>
  C8, the grid at bounds (0, 1) by (0, 1) with resolution (0.4, 0.4).  The horizontal
  lines lie at latitudes 0, 0.4 and 0.8: the stepping starts at the first (minimum)
  latitude, the bottom edge, and no line lies on the top edge at latitude 1.
\<close>

theorem display_map_grid_from_minimum:
  "display_map (Some (0, 1)) (Some (0, 1)) (Some (4 / 10, 4 / 10)) =
     Inr \<lparr>map_tiles = None, location = (1 / 2, 1 / 2), zoom_start = 9,
          children =
            [feat_group,
             PolyLine [(0, 0), (1, 0)] ''white'' (3 / 10),
             PolyLine [(0, 4 / 10), (1, 4 / 10)] ''white'' (3 / 10),
             PolyLine [(0, 8 / 10), (1, 8 / 10)] ''white'' (3 / 10),
             PolyLine [(0, 0), (0, 1)] ''white'' (3 / 10),
             PolyLine [(4 / 10, 0), (4 / 10, 1)] ''white'' (3 / 10),
             PolyLine [(8 / 10, 0), (8 / 10, 1)] ''white'' (3 / 10),
             PolyLine [(0, 0), (0, 1), (1, 1), (1, 0), (0, 0)] ''red'' (8 / 10),
             LatLngPopup]\<rparr>"
proof -
  have g: "resolution_grid (0, 1) (0, 1) (Some (4 / 10, 4 / 10)) =
     Inr [PolyLine [(0, 0), (1, 0)] ''white'' (3 / 10),
          PolyLine [(0, 4 / 10), (1, 4 / 10)] ''white'' (3 / 10),
          PolyLine [(0, 8 / 10), (1, 8 / 10)] ''white'' (3 / 10),
          PolyLine [(0, 0), (0, 1)] ''white'' (3 / 10),
          PolyLine [(4 / 10, 0), (4 / 10, 1)] ''white'' (3 / 10),
          PolyLine [(8 / 10, 0), (8 / 10, 1)] ''white'' (3 / 10)]"
    using arange_example
    by (simp add: resolution_grid_def vertical_grid_def horizontal_grid_def)
  have z: "degree_to_zoom_level (fst (0, 1)) (snd (0, 1)) (- (1 / 2)) = Inr 9"
    using zoom_unit by simp
  show ?thesis
    unfolding display_map_Some [OF z z] g
    by (simp add: np_mean_def line_segments_def)
qed

section \<open>Facts about the grouped-point composer\<close>






lemma list_index_nth:
  "distinct xs \<Longrightarrow> i < length xs \<Longrightarrow> list_index xs (xs ! i) = Some i"
proof (induction xs arbitrary: i)
  case Nil
  then show ?case by simp
next
  case (Cons x xs)
  then show ?case by (cases i) auto
qed

lemma fold_upd_map_of:
  "distinct (map fst ps) \<Longrightarrow>
   fold (\<lambda>(k, v) d. d(k \<mapsto> v)) ps d = d ++ map_of ps"
proof (induction ps arbitrary: d)
  case Nil
  then show ?case by simp
next
  case (Cons p ps)
  obtain k v where p: "p = (k, v)" by (cases p)
  have k: "map_of ps k = None"
    using Cons.prems p by (simp add: map_of_eq_None_iff)
  have e: "d(k \<mapsto> v) ++ map_of ps = d ++ (map_of ps)(k \<mapsto> v)"
    using k by (auto simp: map_add_def fun_eq_iff split: option.splits)
  have "fold (\<lambda>(k, v) d. d(k \<mapsto> v)) (p # ps) d
      = fold (\<lambda>(k, v) d. d(k \<mapsto> v)) ps (d(k \<mapsto> v))"
    by (simp add: p)
  also have "\<dots> = d(k \<mapsto> v) ++ map_of ps"
    using Cons.prems by (intro Cons.IH) simp
  also have "\<dots> = d ++ map_of (p # ps)"
    unfolding e by (simp add: p)
  finally show ?case .
qed

lemma label_colors_map_of:
  "distinct labels \<Longrightarrow> length labels = length pallete \<Longrightarrow>
   label_colors labels pallete = map_of (zip labels pallete)"
  by (simp add: label_colors_def fold_upd_map_of)


lemma dom_label_colors:
  "distinct labels \<Longrightarrow> length labels = length pallete \<Longrightarrow>
   dom (label_colors labels pallete) = set labels"
  by (simp add: label_colors_map_of)












section \<open>Claims about the grouped-point composer\<close>



end
